theory Spec2Isabelle
  imports Main
begin

unbundle bit_operations_syntax

section \<open>Browsing levels: the bit flags of content ratings\<close>

text \<open>
  The development follows \<^verbatim>\<open>src/shared/constants/browsingLevel.constants.ts\<close>.
  A TypeScript \<^verbatim>\<open>number\<close> that holds a level or a mask is an integer here
  (\<^typ>\<open>int\<close>): the bitwise operators of the language read the low 32 bits of an
  integer, and every constant they meet in this file is below \<open>2 ^ 31\<close>, so \<open>AND\<close>
  and \<open>OR\<close> on \<^typ>\<open>int\<close> compute the same bits. Numbers that are not integers
  are outside the model.
\<close>

subsection \<open>The enumeration \<^verbatim>\<open>NsfwLevel\<close>\<close>

text \<open>Modelled from the spec: the enum \<^verbatim>\<open>NsfwLevel\<close> of \<^verbatim>\<open>~/server/common/enums\<close>,
  which the source file imports and which is not among the source files. The spec
  gives five ordered ranks (PG, PG13, R, X, XXX), each a distinct power of two, and the
  sentinel Blocked with a bit of its own outside the five. The ranks take the five lowest
  bits in their order and Blocked the next one.
\<close>

definition NsfwLevel_PG :: int where
  "NsfwLevel_PG = 1"

definition NsfwLevel_PG13 :: int where
  "NsfwLevel_PG13 = 2"

definition NsfwLevel_R :: int where
  "NsfwLevel_R = 4"

definition NsfwLevel_X :: int where
  "NsfwLevel_X = 8"

definition NsfwLevel_XXX :: int where
  "NsfwLevel_XXX = 16"

definition NsfwLevel_Blocked :: int where
  "NsfwLevel_Blocked = 32"

subsection \<open>The list \<^verbatim>\<open>browsingLevels\<close>\<close>

definition browsingLevels :: "int list" where
  "browsingLevels =
    [NsfwLevel_PG, NsfwLevel_PG13, NsfwLevel_R, NsfwLevel_X, NsfwLevel_XXX]"

subsection \<open>The helper class \<^verbatim>\<open>Flags\<close>\<close>

text \<open>Modelled from the spec: \<^verbatim>\<open>Flags.arrayToInstance\<close> of \<^verbatim>\<open>~/shared/utils\<close>, which is
  not among the source files. The spec's \<^verbatim>\<open>encode\<close> returns the bitwise OR of the
  bit value of each level; the input may hold duplicates or be empty, and the empty
  sequence gives the mask 0.
\<close>

definition Flags_arrayToInstance :: "int list \<Rightarrow> int" where
  "Flags_arrayToInstance levels = foldl (OR) 0 levels"

text \<open>Modelled from the spec: \<^verbatim>\<open>Flags.instanceToArray\<close> of \<^verbatim>\<open>~/shared/utils\<close>, which is
  not among the source files. The spec's \<^verbatim>\<open>decode\<close> returns every level of the
  fixed enumeration, in the enumeration's order, whose bit is set in the mask, and it
  inspects only the bit positions of the five combinable ranks.
\<close>

definition Flags_instanceToArray :: "int \<Rightarrow> int list" where
  "Flags_instanceToArray instance = filter (\<lambda>l. instance AND l \<noteq> 0) browsingLevels"

text \<open>Modelled from the spec: \<^verbatim>\<open>Flags.intersects\<close> of \<^verbatim>\<open>~/shared/utils\<close>, which is not
  part of the sources at hand. The spec's \<^verbatim>\<open>intersects\<close> is true iff the bitwise AND of
  the two masks is non-zero.
\<close>

definition Flags_intersects :: "int \<Rightarrow> int \<Rightarrow> bool" where
  "Flags_intersects instance flag \<longleftrightarrow> instance AND flag \<noteq> 0"

subsection \<open>Encoding and decoding\<close>

definition parseBitwiseBrowsingLevel :: "int \<Rightarrow> int list" where
  "parseBitwiseBrowsingLevel level = Flags_instanceToArray level"

definition flagifyBrowsingLevel :: "int list \<Rightarrow> int" where
  "flagifyBrowsingLevel levels = Flags_arrayToInstance levels"

subsection \<open>The groups of levels\<close>

definition publicBrowsingLevelsArray :: "int list" where
  "publicBrowsingLevelsArray = [NsfwLevel_PG]"

definition publicBrowsingLevelsFlag :: int where
  "publicBrowsingLevelsFlag = flagifyBrowsingLevel publicBrowsingLevelsArray"

definition sfwBrowsingLevelsArray :: "int list" where
  "sfwBrowsingLevelsArray = [NsfwLevel_PG, NsfwLevel_PG13]"

definition sfwBrowsingLevelsFlag :: int where
  "sfwBrowsingLevelsFlag = flagifyBrowsingLevel sfwBrowsingLevelsArray"

definition nsfwBrowsingLevelsArray :: "int list" where
  "nsfwBrowsingLevelsArray = [NsfwLevel_R, NsfwLevel_X, NsfwLevel_XXX]"

definition nsfwBrowsingLevelsFlag :: int where
  "nsfwBrowsingLevelsFlag = flagifyBrowsingLevel nsfwBrowsingLevelsArray"

definition allBrowsingLevelsFlag :: int where
  "allBrowsingLevelsFlag = flagifyBrowsingLevel browsingLevels"

subsection \<open>Classification\<close>

text \<open>
  \<^verbatim>\<open>levels.every((level) => publicBrowsingLevelsArray.includes(level))\<close>: \<^verbatim>\<open>every\<close> is
  \<^const>\<open>list_all\<close> and \<^verbatim>\<open>includes\<close> is \<^const>\<open>List.member\<close>.
\<close>

definition getIsPublicBrowsingLevel :: "int \<Rightarrow> bool" where
  "getIsPublicBrowsingLevel level =
    (let levels = parseBitwiseBrowsingLevel level
     in list_all (\<lambda>level. List.member publicBrowsingLevelsArray level) levels)"

definition getIsSafeBrowsingLevel :: "int \<Rightarrow> bool" where
  "getIsSafeBrowsingLevel level \<longleftrightarrow>
    level \<noteq> 0 \<and> \<not> Flags_intersects level nsfwBrowsingLevelsFlag"

text \<open>
  An element of the array is a number or \<^verbatim>\<open>undefined\<close>: an \<^typ>\<open>int option\<close>. The test
  \<^verbatim>\<open>!!item\<close> holds of a defined integer other than 0. The loop returns at the first
  such item and falls through to the public flag.
\<close>

fun browsingLevelOr :: "int option list \<Rightarrow> int" where
  "browsingLevelOr [] = publicBrowsingLevelsFlag"
| "browsingLevelOr (None # array) = browsingLevelOr array"
| "browsingLevelOr (Some item # array) =
    (if item \<noteq> 0 then item else browsingLevelOr array)"

subsection \<open>The deprecated levels\<close>

datatype NsfwLevelDeprecated =
  NsfwLevelDeprecated_None
| NsfwLevelDeprecated_Soft
| NsfwLevelDeprecated_Mature
| NsfwLevelDeprecated_X
| NsfwLevelDeprecated_Blocked

text \<open>The string value of each member of the enum.\<close>

fun NsfwLevelDeprecated_value :: "NsfwLevelDeprecated \<Rightarrow> string" where
  "NsfwLevelDeprecated_value NsfwLevelDeprecated_None = ''None''"
| "NsfwLevelDeprecated_value NsfwLevelDeprecated_Soft = ''Soft''"
| "NsfwLevelDeprecated_value NsfwLevelDeprecated_Mature = ''Mature''"
| "NsfwLevelDeprecated_value NsfwLevelDeprecated_X = ''X''"
| "NsfwLevelDeprecated_value NsfwLevelDeprecated_Blocked = ''Blocked''"

text \<open>The object \<^verbatim>\<open>nsfwLevelMapDeprecated\<close> has one property for each deprecated level.\<close>

fun nsfwLevelMapDeprecated :: "NsfwLevelDeprecated \<Rightarrow> int" where
  "nsfwLevelMapDeprecated NsfwLevelDeprecated_None = NsfwLevel_PG"
| "nsfwLevelMapDeprecated NsfwLevelDeprecated_Soft = NsfwLevel_PG13"
| "nsfwLevelMapDeprecated NsfwLevelDeprecated_Mature = NsfwLevel_R"
| "nsfwLevelMapDeprecated NsfwLevelDeprecated_X =
    flagifyBrowsingLevel [NsfwLevel_X, NsfwLevel_XXX]"
| "nsfwLevelMapDeprecated NsfwLevelDeprecated_Blocked = NsfwLevel_Blocked"

text \<open>
  The object \<^verbatim>\<open>nsfwLevelReverseMapDeprecated\<close> is keyed by the six values of
  \<^verbatim>\<open>NsfwLevel\<close>; a lookup at any other key gives \<^verbatim>\<open>undefined\<close>.
\<close>

definition nsfwLevelReverseMapDeprecated :: "int \<rightharpoonup> NsfwLevelDeprecated" where
  "nsfwLevelReverseMapDeprecated = map_of
    [(NsfwLevel_PG, NsfwLevelDeprecated_None),
     (NsfwLevel_PG13, NsfwLevelDeprecated_Soft),
     (NsfwLevel_R, NsfwLevelDeprecated_Mature),
     (NsfwLevel_X, NsfwLevelDeprecated_X),
     (NsfwLevel_XXX, NsfwLevelDeprecated_X),
     (NsfwLevel_Blocked, NsfwLevelDeprecated_Blocked)]"

definition getNsfwLeveLDeprecatedReverseMapping :: "int \<Rightarrow> NsfwLevelDeprecated" where
  "getNsfwLeveLDeprecatedReverseMapping level =
    (case nsfwLevelReverseMapDeprecated level of
       Some v \<Rightarrow> v
     | None \<Rightarrow> NsfwLevelDeprecated_None)"

section \<open>Values of the group flags\<close>

lemmas NsfwLevel_defs =
  NsfwLevel_PG_def NsfwLevel_PG13_def NsfwLevel_R_def
  NsfwLevel_X_def NsfwLevel_XXX_def NsfwLevel_Blocked_def

lemma publicBrowsingLevelsFlag_value: "publicBrowsingLevelsFlag = 1"
  by (simp add: publicBrowsingLevelsFlag_def publicBrowsingLevelsArray_def
      flagifyBrowsingLevel_def Flags_arrayToInstance_def NsfwLevel_defs)

lemma sfwBrowsingLevelsFlag_value: "sfwBrowsingLevelsFlag = 3"
  by (simp add: sfwBrowsingLevelsFlag_def sfwBrowsingLevelsArray_def
      flagifyBrowsingLevel_def Flags_arrayToInstance_def NsfwLevel_defs)

lemma nsfwBrowsingLevelsFlag_value: "nsfwBrowsingLevelsFlag = 28"
  by (simp add: nsfwBrowsingLevelsFlag_def nsfwBrowsingLevelsArray_def
      flagifyBrowsingLevel_def Flags_arrayToInstance_def NsfwLevel_defs)

lemma allBrowsingLevelsFlag_value: "allBrowsingLevelsFlag = 31"
  by (simp add: allBrowsingLevelsFlag_def browsingLevels_def
      flagifyBrowsingLevel_def Flags_arrayToInstance_def NsfwLevel_defs)

section \<open>Bits of an encoded sequence\<close>

lemma bit_foldl_OR:
  "bit (foldl (OR) (a::int) xs) n \<longleftrightarrow> bit a n \<or> (\<exists>x\<in>set xs. bit x n)"
  by (induction xs arbitrary: a) (auto simp add: bit_or_iff)

lemma bit_flagifyBrowsingLevel:
  "bit (flagifyBrowsingLevel levels) n \<longleftrightarrow> (\<exists>x\<in>set levels. bit x n)"
  by (simp add: flagifyBrowsingLevel_def Flags_arrayToInstance_def bit_foldl_OR)

lemma flagifyBrowsingLevel_set_cong:
  "set xs = set ys \<Longrightarrow> flagifyBrowsingLevel xs = flagifyBrowsingLevel ys"
  by (rule bit_eqI) (simp add: bit_flagifyBrowsingLevel)

lemma and_exp_neq_0_iff: "(m::int) AND 2 ^ k \<noteq> 0 \<longleftrightarrow> bit m k"
  by (simp add: and_exp_eq_0_iff_not_bit)

lemma in_browsingLevels_iff:
  "l \<in> set browsingLevels \<longleftrightarrow> (\<exists>k<5. l = 2 ^ k)"
proof
  assume "l \<in> set browsingLevels"
  then consider "l = 2 ^ 0" | "l = 2 ^ 1" | "l = 2 ^ 2" | "l = 2 ^ 3" | "l = 2 ^ 4"
    by (auto simp add: browsingLevels_def NsfwLevel_defs)
  then show "\<exists>k<5. l = 2 ^ k"
  proof cases
    case 1 then show ?thesis by (intro exI [of _ 0]) simp
  next
    case 2 then show ?thesis by (intro exI [of _ 1]) simp
  next
    case 3 then show ?thesis by (intro exI [of _ 2]) simp
  next
    case 4 then show ?thesis by (intro exI [of _ 3]) simp
  next
    case 5 then show ?thesis by (intro exI [of _ 4]) simp
  qed
next
  assume "\<exists>k<5. l = 2 ^ k"
  then obtain k :: nat where "k < 5" "l = 2 ^ k" by blast
  then have "k \<in> {0, 1, 2, 3, 4}" by auto
  with \<open>l = 2 ^ k\<close> show "l \<in> set browsingLevels"
    by (auto simp add: browsingLevels_def NsfwLevel_defs)
qed

lemma intersects_flagify_iff:
  assumes "set levels \<subseteq> set browsingLevels" and "l \<in> set browsingLevels"
  shows "flagifyBrowsingLevel levels AND l \<noteq> 0 \<longleftrightarrow> l \<in> set levels"
proof -
  from assms(2) obtain k where l: "l = 2 ^ k"
    by (auto simp add: in_browsingLevels_iff)
  have "flagifyBrowsingLevel levels AND l \<noteq> 0 \<longleftrightarrow> (\<exists>x\<in>set levels. bit x k)"
    by (simp add: l and_exp_neq_0_iff bit_flagifyBrowsingLevel)
  also have "\<dots> \<longleftrightarrow> l \<in> set levels"
  proof
    assume "\<exists>x\<in>set levels. bit x k"
    then obtain x where x: "x \<in> set levels" "bit x k" by blast
    with assms(1) have "x \<in> set browsingLevels" by blast
    then obtain j where "x = 2 ^ j"
      by (auto simp add: in_browsingLevels_iff)
    with x(2) have "x = l" by (simp add: l bit_exp_iff)
    with x(1) show "l \<in> set levels" by simp
  next
    assume "l \<in> set levels"
    moreover have "bit l k" by (simp add: l bit_exp_iff)
    ultimately show "\<exists>x\<in>set levels. bit x k" by blast
  qed
  finally show ?thesis .
qed

section \<open>Round trip of encoding and decoding\<close>

text \<open>
  Claim C1. For every subset \<open>S\<close> of the five ranks and every sequence \<open>levels\<close> whose
  set of elements is \<open>S\<close>, in any order and with any duplicates, decoding the encoded
  sequence gives exactly the ranks of \<open>S\<close> in the order of the enumeration
  PG, PG13, R, X, XXX, and encoding that result again gives the same mask.
\<close>

theorem parse_flagify_roundtrip:
  assumes "S \<subseteq> set browsingLevels" and "set levels = S"
  shows "parseBitwiseBrowsingLevel (flagifyBrowsingLevel levels) =
           filter (\<lambda>l. l \<in> S) browsingLevels \<and>
         flagifyBrowsingLevel (parseBitwiseBrowsingLevel (flagifyBrowsingLevel levels)) =
           flagifyBrowsingLevel levels"
proof -
  from assms have sub: "set levels \<subseteq> set browsingLevels" by simp
  have parse: "parseBitwiseBrowsingLevel (flagifyBrowsingLevel levels) =
      filter (\<lambda>l. l \<in> S) browsingLevels"
    unfolding parseBitwiseBrowsingLevel_def Flags_instanceToArray_def
    using intersects_flagify_iff [OF sub] assms(2) by (intro filter_cong) simp_all
  have "set (filter (\<lambda>l. l \<in> S) browsingLevels) = set levels"
    using assms by auto
  then have "flagifyBrowsingLevel (filter (\<lambda>l. l \<in> S) browsingLevels) =
      flagifyBrowsingLevel levels"
    by (rule flagifyBrowsingLevel_set_cong)
  with parse show ?thesis by simp
qed


text \<open>The round trip at the sequence 16, 1, 4, 1 (XXX, PG, R, PG).\<close>

theorem parse_flagify_roundtrip_witness:
  "{1, 4, 16} \<subseteq> set browsingLevels \<and>
   set [16, 1, 4, 1] = {1, 4, 16 :: int} \<and>
   parseBitwiseBrowsingLevel (flagifyBrowsingLevel [16, 1, 4, 1]) = [1, 4, 16] \<and>
   flagifyBrowsingLevel (parseBitwiseBrowsingLevel (flagifyBrowsingLevel [16, 1, 4, 1])) =
     flagifyBrowsingLevel [16, 1, 4, 1]"
proof -
  have sub: "{1, 4, 16} \<subseteq> set browsingLevels"
    by (simp add: browsingLevels_def NsfwLevel_defs)
  have eq: "set [16, 1, 4, 1] = {1, 4, 16 :: int}"
    by auto
  have sel: "filter (\<lambda>l. l \<in> {1, 4, 16}) browsingLevels = [1, 4, 16]"
    by (simp add: browsingLevels_def NsfwLevel_defs)
  note roundtrip = parse_flagify_roundtrip [OF sub eq, unfolded sel]
  from sub eq roundtrip show ?thesis
    by blast
qed

section \<open>What decoding returns\<close>

lemma set_parseBitwiseBrowsingLevel:
  "set (parseBitwiseBrowsingLevel m) = {l \<in> set browsingLevels. m AND l \<noteq> 0}"
  by (simp add: parseBitwiseBrowsingLevel_def Flags_instanceToArray_def)

text \<open>
  Claim C2. For every mask, each element of the decoded sequence is one of the five
  ranks PG, PG13, R, X, XXX; a value outside the five is never an element of it, and
  in particular the Blocked sentinel is absent also when its bit is set in the mask.
\<close>

theorem parse_only_ranks:
  "set (parseBitwiseBrowsingLevel m) \<subseteq> set browsingLevels \<and>
   set browsingLevels =
     {NsfwLevel_PG, NsfwLevel_PG13, NsfwLevel_R, NsfwLevel_X, NsfwLevel_XXX} \<and>
   (\<forall>v. v \<notin> set browsingLevels \<longrightarrow> v \<notin> set (parseBitwiseBrowsingLevel m)) \<and>
   NsfwLevel_Blocked \<notin> set browsingLevels \<and>
   (m AND NsfwLevel_Blocked \<noteq> 0 \<longrightarrow> NsfwLevel_Blocked \<notin> set (parseBitwiseBrowsingLevel m))"
  by (auto simp add: set_parseBitwiseBrowsingLevel browsingLevels_def NsfwLevel_defs)

text \<open>The mask 63 has the bit of Blocked set and decodes to the five ranks.\<close>

theorem parse_only_ranks_witness:
  "63 AND NsfwLevel_Blocked \<noteq> 0 \<and> 
   NsfwLevel_Blocked \<notin> set (parseBitwiseBrowsingLevel 63) \<and>
   parseBitwiseBrowsingLevel 63 = browsingLevels"
  using parse_only_ranks [of 63]
  by (simp add: parseBitwiseBrowsingLevel_def Flags_instanceToArray_def
      browsingLevels_def NsfwLevel_defs)

section \<open>Safe and public masks\<close>

text \<open>
  Claim C3. \<^verbatim>\<open>getIsSafeBrowsingLevel\<close> is true of a mask iff the mask is not 0 and its
  bitwise AND with the flag of the group R, X, XXX is 0. It is false of 0, true of the
  encoding of PG alone, and false of the encoding of PG with R.
\<close>

theorem getIsSafeBrowsingLevel_iff:
  "(getIsSafeBrowsingLevel m \<longleftrightarrow> m \<noteq> 0 \<and> m AND nsfwBrowsingLevelsFlag = 0) \<and>
   nsfwBrowsingLevelsFlag = NsfwLevel_R OR NsfwLevel_X OR NsfwLevel_XXX \<and>
   \<not> getIsSafeBrowsingLevel 0 \<and>
   getIsSafeBrowsingLevel (flagifyBrowsingLevel [NsfwLevel_PG]) \<and>
   \<not> getIsSafeBrowsingLevel (flagifyBrowsingLevel [NsfwLevel_PG, NsfwLevel_R])"
  by (simp add: getIsSafeBrowsingLevel_def Flags_intersects_def
      nsfwBrowsingLevelsFlag_value flagifyBrowsingLevel_def Flags_arrayToInstance_def
      NsfwLevel_defs)

text \<open>The mask 3 (PG, PG13) is safe and the mask 5 (PG, R) is not.\<close>

theorem getIsSafeBrowsingLevel_iff_witness:
  "getIsSafeBrowsingLevel 3 \<and> 3 AND nsfwBrowsingLevelsFlag = 0 \<and>
   \<not> getIsSafeBrowsingLevel 5 \<and> 5 AND nsfwBrowsingLevelsFlag \<noteq> 0"
  using getIsSafeBrowsingLevel_iff [of 3] getIsSafeBrowsingLevel_iff [of 5]
  by (simp add: nsfwBrowsingLevelsFlag_value)

text \<open>
  Claim C4. \<^verbatim>\<open>getIsPublicBrowsingLevel\<close> is true of a mask iff every level in the
  decoding of the mask is in the public group, whose only rank is PG. It is true of 0,
  whose decoding is empty, true of the encoding of PG alone, and false of the encoding
  of PG with PG13.
\<close>

theorem getIsPublicBrowsingLevel_iff:
  "(getIsPublicBrowsingLevel m \<longleftrightarrow>
     (\<forall>l\<in>set (parseBitwiseBrowsingLevel m). l \<in> set publicBrowsingLevelsArray)) \<and>
   publicBrowsingLevelsArray = [NsfwLevel_PG] \<and>
   parseBitwiseBrowsingLevel 0 = [] \<and>
   getIsPublicBrowsingLevel 0 \<and>
   getIsPublicBrowsingLevel (flagifyBrowsingLevel [NsfwLevel_PG]) \<and>
   \<not> getIsPublicBrowsingLevel (flagifyBrowsingLevel [NsfwLevel_PG, NsfwLevel_PG13])"
  by (simp add: getIsPublicBrowsingLevel_def list_all_iff
      publicBrowsingLevelsArray_def parseBitwiseBrowsingLevel_def Flags_instanceToArray_def
      browsingLevels_def flagifyBrowsingLevel_def Flags_arrayToInstance_def NsfwLevel_defs)

text \<open>The mask 33 decodes to PG alone and is public; the mask 6 decodes to PG13, R and is not.\<close>

theorem getIsPublicBrowsingLevel_iff_witness:
  "parseBitwiseBrowsingLevel 33 = [1] \<and> getIsPublicBrowsingLevel 33 \<and>
   parseBitwiseBrowsingLevel 6 = [2, 4] \<and> \<not> getIsPublicBrowsingLevel 6"
  using getIsPublicBrowsingLevel_iff [of 33] getIsPublicBrowsingLevel_iff [of 6]
  by (simp add: parseBitwiseBrowsingLevel_def Flags_instanceToArray_def
      browsingLevels_def publicBrowsingLevelsArray_def NsfwLevel_defs)

section \<open>The first mask that is set\<close>

lemma browsingLevelOr_skip:
  assumes "\<forall>item\<in>set skipped. item = None \<or> item = Some 0"
  shows "browsingLevelOr (skipped @ array) = browsingLevelOr array"
  using assms
proof (induction skipped)
  case Nil
  show ?case by simp
next
  case (Cons item skipped)
  then have "item = None \<or> item = Some 0" by simp
  with Cons show ?case by auto
qed

text \<open>
  Claim C5. \<^verbatim>\<open>browsingLevelOr\<close> returns the first element of the sequence that is defined
  and not 0: the element at index \<open>i\<close> when every element before it is undefined or 0.
  When every element is undefined or 0, and so for the empty sequence, it returns the
  flag of the public group. In particular the sequence undefined, 0, encoding of R gives
  the encoding of R, and the sequence undefined, 0 gives the public flag.
\<close>

theorem browsingLevelOr_first:
  "(\<forall>i v. i < length array \<and> array ! i = Some v \<and> v \<noteq> 0 \<and>
      (\<forall>j<i. array ! j = None \<or> array ! j = Some 0) \<longrightarrow>
      browsingLevelOr array = v) \<and>
   ((\<forall>item\<in>set array. item = None \<or> item = Some 0) \<longrightarrow>
      browsingLevelOr array = publicBrowsingLevelsFlag) \<and>
   browsingLevelOr [] = publicBrowsingLevelsFlag \<and>
   browsingLevelOr [None, Some 0, Some (flagifyBrowsingLevel [NsfwLevel_R])] =
     flagifyBrowsingLevel [NsfwLevel_R] \<and>
   browsingLevelOr [None, Some 0] = publicBrowsingLevelsFlag"
proof (intro conjI allI impI)
  fix i v
  assume h: "i < length array \<and> array ! i = Some v \<and> v \<noteq> 0 \<and>
    (\<forall>j<i. array ! j = None \<or> array ! j = Some 0)"
  then have split: "array = take i array @ Some v # drop (Suc i) array"
    by (metis id_take_nth_drop)
  have "\<forall>item\<in>set (take i array). item = None \<or> item = Some 0"
  proof
    fix item
    assume "item \<in> set (take i array)"
    then obtain j where "j < length (take i array)" "take i array ! j = item"
      by (auto simp add: in_set_conv_nth)
    with h show "item = None \<or> item = Some 0"
      by auto
  qed
  then have "browsingLevelOr (take i array @ Some v # drop (Suc i) array) =
      browsingLevelOr (Some v # drop (Suc i) array)"
    by (rule browsingLevelOr_skip)
  with split h show "browsingLevelOr array = v"
    by simp
next
  assume "\<forall>item\<in>set array. item = None \<or> item = Some 0"
  then have "browsingLevelOr (array @ []) = browsingLevelOr []"
    by (rule browsingLevelOr_skip)
  then show "browsingLevelOr array = publicBrowsingLevelsFlag"
    by simp
next
  show "browsingLevelOr [] = publicBrowsingLevelsFlag"
    by simp
next
  show "browsingLevelOr [None, Some 0, Some (flagifyBrowsingLevel [NsfwLevel_R])] =
      flagifyBrowsingLevel [NsfwLevel_R]"
    by (simp add: flagifyBrowsingLevel_def Flags_arrayToInstance_def NsfwLevel_defs)
next
  show "browsingLevelOr [None, Some 0] = publicBrowsingLevelsFlag"
    by simp
qed

text \<open>
  The sequence undefined, 0, 4, 8 gives 4, its element at index 2; the sequence
  0, undefined, 0 gives the public flag.
\<close>

theorem browsingLevelOr_first_witness:
  "browsingLevelOr [None, Some 0, Some 4, Some 8] = 4 \<and>
   browsingLevelOr [Some 0, None, Some 0] = publicBrowsingLevelsFlag"
proof -
  let ?a = "[None, Some 0, Some 4, Some 8] :: int option list"
  have "\<forall>j<2. ?a ! j = None \<or> ?a ! j = Some 0"
    by (simp add: less_Suc_eq numeral_2_eq_2)
  then have "2 < length ?a \<and> ?a ! 2 = Some 4 \<and> (4::int) \<noteq> 0 \<and>
      (\<forall>j<2. ?a ! j = None \<or> ?a ! j = Some 0)"
    by simp
  with browsingLevelOr_first [of ?a] have first: "browsingLevelOr ?a = 4"
    by blast
  have "\<forall>item\<in>set [Some 0, None, Some (0::int)]. item = None \<or> item = Some 0"
    by simp
  with browsingLevelOr_first [of "[Some 0, None, Some 0]"]
  have "browsingLevelOr [Some 0, None, Some 0] = publicBrowsingLevelsFlag"
    by blast
  with first show ?thesis
    by blast
qed

section \<open>The deprecated mapping\<close>

lemma dom_nsfwLevelReverseMapDeprecated:
  "dom nsfwLevelReverseMapDeprecated =
    {NsfwLevel_PG, NsfwLevel_PG13, NsfwLevel_R, NsfwLevel_X, NsfwLevel_XXX,
     NsfwLevel_Blocked}"
  by (auto simp add: nsfwLevelReverseMapDeprecated_def dom_def NsfwLevel_defs)

lemma two_bits_not_key:
  assumes "bit level i" and "bit level j" and "i \<noteq> j"
  shows "nsfwLevelReverseMapDeprecated level = None"
proof -
  have "level \<noteq> 2 ^ k" for k
  proof
    assume "level = 2 ^ k"
    with assms(1,2) have "i = k" and "j = k"
      by (simp_all add: bit_exp_iff)
    with assms(3) show False by simp
  qed
  from this [of 0] this [of 1] this [of 2] this [of 3] this [of 4] this [of 5]
  have "level \<notin> dom nsfwLevelReverseMapDeprecated"
    by (simp add: dom_nsfwLevelReverseMapDeprecated NsfwLevel_defs)
  then show ?thesis
    by (simp add: domIff)
qed

text \<open>
  Claim C6. \<^verbatim>\<open>getNsfwLeveLDeprecatedReverseMapping\<close> returns the entry of the reverse
  table when its input is a key of the table, and the keys are the six single values of
  \<^verbatim>\<open>NsfwLevel\<close>; for an input that is not a key it returns
  \<^verbatim>\<open>NsfwLevelDeprecated.None\<close>. The encoding of a sequence of ranks that holds two
  different ranks is not a key and is sent to \<^verbatim>\<open>None\<close>. The single level X and the
  single level XXX are both sent to the deprecated level X, whose value is the string
  \<^verbatim>\<open>'X'\<close>.
\<close>

theorem reverse_mapping_lookup:
  "(\<forall>d. nsfwLevelReverseMapDeprecated level = Some d \<longrightarrow>
      getNsfwLeveLDeprecatedReverseMapping level = d) \<and>
   (level \<notin> dom nsfwLevelReverseMapDeprecated \<longrightarrow>
      getNsfwLeveLDeprecatedReverseMapping level = NsfwLevelDeprecated_None) \<and>
   dom nsfwLevelReverseMapDeprecated =
     {NsfwLevel_PG, NsfwLevel_PG13, NsfwLevel_R, NsfwLevel_X, NsfwLevel_XXX,
      NsfwLevel_Blocked} \<and>
   (\<forall>levels a b. set levels \<subseteq> set browsingLevels \<and>
      a \<in> set levels \<and> b \<in> set levels \<and> a \<noteq> b \<longrightarrow>
      flagifyBrowsingLevel levels \<notin> dom nsfwLevelReverseMapDeprecated \<and>
      getNsfwLeveLDeprecatedReverseMapping (flagifyBrowsingLevel levels) =
        NsfwLevelDeprecated_None) \<and>
   getNsfwLeveLDeprecatedReverseMapping NsfwLevel_X = NsfwLevelDeprecated_X \<and>
   getNsfwLeveLDeprecatedReverseMapping NsfwLevel_XXX = NsfwLevelDeprecated_X \<and>
   NsfwLevelDeprecated_value NsfwLevelDeprecated_X = ''X''"
proof (intro conjI allI impI)
  fix d
  assume "nsfwLevelReverseMapDeprecated level = Some d"
  then show "getNsfwLeveLDeprecatedReverseMapping level = d"
    by (simp add: getNsfwLeveLDeprecatedReverseMapping_def)
next
  assume "level \<notin> dom nsfwLevelReverseMapDeprecated"
  then show "getNsfwLeveLDeprecatedReverseMapping level = NsfwLevelDeprecated_None"
    by (simp add: getNsfwLeveLDeprecatedReverseMapping_def domIff)
next
  show "dom nsfwLevelReverseMapDeprecated =
     {NsfwLevel_PG, NsfwLevel_PG13, NsfwLevel_R, NsfwLevel_X, NsfwLevel_XXX,
      NsfwLevel_Blocked}"
    by (rule dom_nsfwLevelReverseMapDeprecated)
next
  fix levels a b
  assume h: "set levels \<subseteq> set browsingLevels \<and>
      a \<in> set levels \<and> b \<in> set levels \<and> a \<noteq> b"
  then have "a \<in> set browsingLevels" and "b \<in> set browsingLevels"
    by blast+
  then obtain i j where a: "a = 2 ^ i" and b: "b = 2 ^ j"
    by (auto simp add: in_browsingLevels_iff)
  have "bit a i" and "bit b j"
    by (simp_all add: a b bit_exp_iff)
  with h have "bit (flagifyBrowsingLevel levels) i"
    and "bit (flagifyBrowsingLevel levels) j"
    unfolding bit_flagifyBrowsingLevel by blast+
  moreover from h a b have "i \<noteq> j"
    by auto
  ultimately have none: "nsfwLevelReverseMapDeprecated (flagifyBrowsingLevel levels) = None"
    by (rule two_bits_not_key)
  then show "flagifyBrowsingLevel levels \<notin> dom nsfwLevelReverseMapDeprecated"
    by (simp add: domIff)
  from none show "getNsfwLeveLDeprecatedReverseMapping (flagifyBrowsingLevel levels) =
      NsfwLevelDeprecated_None"
    by (simp add: getNsfwLeveLDeprecatedReverseMapping_def)
next
  show "getNsfwLeveLDeprecatedReverseMapping NsfwLevel_X = NsfwLevelDeprecated_X"
    by (simp add: getNsfwLeveLDeprecatedReverseMapping_def
        nsfwLevelReverseMapDeprecated_def NsfwLevel_defs)
next
  show "getNsfwLeveLDeprecatedReverseMapping NsfwLevel_XXX = NsfwLevelDeprecated_X"
    by (simp add: getNsfwLeveLDeprecatedReverseMapping_def
        nsfwLevelReverseMapDeprecated_def NsfwLevel_defs)
next
  show "NsfwLevelDeprecated_value NsfwLevelDeprecated_X = ''X''"
    by simp
qed


text \<open>
  The key 8 (X) is found, the input 7 is not a key, and the encoding of X, XXX, X falls
  back to \<^verbatim>\<open>None\<close>.
\<close>

theorem reverse_mapping_lookup_witness:
  "nsfwLevelReverseMapDeprecated 8 = Some NsfwLevelDeprecated_X \<and>
   getNsfwLeveLDeprecatedReverseMapping 8 = NsfwLevelDeprecated_X \<and>
   7 \<notin> dom nsfwLevelReverseMapDeprecated \<and>
   getNsfwLeveLDeprecatedReverseMapping 7 = NsfwLevelDeprecated_None \<and>
   set [8, 16, 8] \<subseteq> set browsingLevels \<and>
   getNsfwLeveLDeprecatedReverseMapping (flagifyBrowsingLevel [8, 16, 8]) =
     NsfwLevelDeprecated_None"
proof -
  have key: "nsfwLevelReverseMapDeprecated 8 = Some NsfwLevelDeprecated_X"
    by (simp add: nsfwLevelReverseMapDeprecated_def NsfwLevel_defs)
  with reverse_mapping_lookup [of 8]
  have found: "getNsfwLeveLDeprecatedReverseMapping 8 = NsfwLevelDeprecated_X"
    by blast
  have nokey: "7 \<notin> dom nsfwLevelReverseMapDeprecated"
    by (simp add: nsfwLevelReverseMapDeprecated_def dom_def NsfwLevel_defs)
  with reverse_mapping_lookup [of 7]
  have fallback: "getNsfwLeveLDeprecatedReverseMapping 7 = NsfwLevelDeprecated_None"
    by blast
  have ranks: "set [8, 16, 8] \<subseteq> set browsingLevels"
    by (simp add: browsingLevels_def NsfwLevel_defs)
  then have "set [8, 16, 8] \<subseteq> set browsingLevels \<and>
      (8::int) \<in> set [8, 16, 8] \<and> (16::int) \<in> set [8, 16, 8] \<and> (8::int) \<noteq> 16"
    by simp
  with reverse_mapping_lookup [of 0]
  have "getNsfwLeveLDeprecatedReverseMapping (flagifyBrowsingLevel [8, 16, 8]) =
      NsfwLevelDeprecated_None"
    by blast
  with key found nokey fallback ranks show ?thesis
    by blast
qed

text \<open>
  Claim C7. The forward mapping sends the deprecated level X to the encoding of the ranks
  X and XXX, the bitwise OR of the two, and this mask intersects the bit of X and the bit
  of XXX.
\<close>

theorem nsfwLevelMapDeprecated_X:
  "nsfwLevelMapDeprecated NsfwLevelDeprecated_X =
     flagifyBrowsingLevel [NsfwLevel_X, NsfwLevel_XXX] \<and>
   nsfwLevelMapDeprecated NsfwLevelDeprecated_X = NsfwLevel_X OR NsfwLevel_XXX \<and>
   Flags_intersects (nsfwLevelMapDeprecated NsfwLevelDeprecated_X) NsfwLevel_X \<and>
   Flags_intersects (nsfwLevelMapDeprecated NsfwLevelDeprecated_X) NsfwLevel_XXX \<and>
   parseBitwiseBrowsingLevel (nsfwLevelMapDeprecated NsfwLevelDeprecated_X) =
     [NsfwLevel_X, NsfwLevel_XXX]"
  by (simp add: flagifyBrowsingLevel_def Flags_arrayToInstance_def Flags_intersects_def
      parseBitwiseBrowsingLevel_def Flags_instanceToArray_def browsingLevels_def
      NsfwLevel_defs)

section \<open>The group flags\<close>

lemma parse_values:
  "parseBitwiseBrowsingLevel 1 = [1]"
  "parseBitwiseBrowsingLevel 3 = [1, 2]"
  "parseBitwiseBrowsingLevel 28 = [4, 8, 16]"
  "parseBitwiseBrowsingLevel 31 = [1, 2, 4, 8, 16]"
  by (simp_all add: parseBitwiseBrowsingLevel_def Flags_instanceToArray_def
      browsingLevels_def NsfwLevel_defs)

lemma flagify_values:
  "flagifyBrowsingLevel [1] = 1"
  "flagifyBrowsingLevel [1, 2] = 3"
  "flagifyBrowsingLevel [4, 8, 16] = 28"
  "flagifyBrowsingLevel [1, 2, 4, 8, 16] = 31"
  by (simp_all add: flagifyBrowsingLevel_def Flags_arrayToInstance_def)

text \<open>
  Claim C8. Each of the four group flags (public, safe for work, not safe for work, all)
  is a fixed point of decoding followed by encoding. The public group holds the one rank
  PG, the group safe for work holds two ranks and PG among them, the group not safe for
  work holds three ranks, and the flag of all levels is the bitwise OR of the flag safe
  for work and the flag not safe for work.
\<close>

theorem group_flags_fixed_points:
  "flagifyBrowsingLevel (parseBitwiseBrowsingLevel publicBrowsingLevelsFlag) =
     publicBrowsingLevelsFlag \<and>
   flagifyBrowsingLevel (parseBitwiseBrowsingLevel sfwBrowsingLevelsFlag) =
     sfwBrowsingLevelsFlag \<and>
   flagifyBrowsingLevel (parseBitwiseBrowsingLevel nsfwBrowsingLevelsFlag) =
     nsfwBrowsingLevelsFlag \<and>
   flagifyBrowsingLevel (parseBitwiseBrowsingLevel allBrowsingLevelsFlag) =
     allBrowsingLevelsFlag \<and>
   parseBitwiseBrowsingLevel publicBrowsingLevelsFlag = [NsfwLevel_PG] \<and>
   parseBitwiseBrowsingLevel publicBrowsingLevelsFlag = publicBrowsingLevelsArray \<and>
   parseBitwiseBrowsingLevel sfwBrowsingLevelsFlag = sfwBrowsingLevelsArray \<and>
   length sfwBrowsingLevelsArray = 2 \<and> distinct sfwBrowsingLevelsArray \<and>
   NsfwLevel_PG \<in> set sfwBrowsingLevelsArray \<and>
   parseBitwiseBrowsingLevel nsfwBrowsingLevelsFlag = nsfwBrowsingLevelsArray \<and>
   length nsfwBrowsingLevelsArray = 3 \<and> distinct nsfwBrowsingLevelsArray \<and>
   allBrowsingLevelsFlag = sfwBrowsingLevelsFlag OR nsfwBrowsingLevelsFlag \<and>
   parseBitwiseBrowsingLevel allBrowsingLevelsFlag =
     sfwBrowsingLevelsArray @ nsfwBrowsingLevelsArray"
  by (simp add: publicBrowsingLevelsFlag_value sfwBrowsingLevelsFlag_value
      nsfwBrowsingLevelsFlag_value allBrowsingLevelsFlag_value parse_values flagify_values
      publicBrowsingLevelsArray_def sfwBrowsingLevelsArray_def nsfwBrowsingLevelsArray_def
      NsfwLevel_defs)

text \<open>
  Claim C9. The reverse mapping sends the Blocked sentinel to the deprecated level
  Blocked, which is not the fallback \<^verbatim>\<open>None\<close>, although Blocked is not one of the
  five combinable ranks.
\<close>

theorem reverse_mapping_Blocked:
  "getNsfwLeveLDeprecatedReverseMapping NsfwLevel_Blocked = NsfwLevelDeprecated_Blocked \<and>
   NsfwLevelDeprecated_Blocked \<noteq> NsfwLevelDeprecated_None \<and>
   NsfwLevel_Blocked \<notin> set browsingLevels"
  by (simp add: getNsfwLeveLDeprecatedReverseMapping_def nsfwLevelReverseMapDeprecated_def
      browsingLevels_def NsfwLevel_defs)

lemma and_nsfw_rank:
  assumes "(m::int) AND 28 = 0"
  shows "m AND 4 = 0" and "m AND 8 = 0" and "m AND 16 = 0"
proof -
  have "m AND 4 = (m AND 28) AND 4" "m AND 8 = (m AND 28) AND 8"
    "m AND 16 = (m AND 28) AND 16"
    by (simp_all add: and.assoc)
  with assms show "m AND 4 = 0" and "m AND 8 = 0" and "m AND 16 = 0"
    by simp_all
qed

text \<open>
  Claim C10. The flag safe for work and the flag not safe for work are disjoint: their
  bitwise AND is 0. Every mask of which \<^verbatim>\<open>getIsSafeBrowsingLevel\<close> is true decodes to
  ranks among PG and PG13 only.
\<close>

theorem safe_decodes_to_sfw:
  "sfwBrowsingLevelsFlag AND nsfwBrowsingLevelsFlag = 0 \<and>
   (getIsSafeBrowsingLevel m \<longrightarrow>
      set (parseBitwiseBrowsingLevel m) \<subseteq> {NsfwLevel_PG, NsfwLevel_PG13})"
proof (intro conjI impI)
  show "sfwBrowsingLevelsFlag AND nsfwBrowsingLevelsFlag = 0"
    by (simp add: sfwBrowsingLevelsFlag_value nsfwBrowsingLevelsFlag_value)
next
  assume "getIsSafeBrowsingLevel m"
  then have "m AND 28 = 0"
    by (simp add: getIsSafeBrowsingLevel_def Flags_intersects_def
        nsfwBrowsingLevelsFlag_value)
  from and_nsfw_rank [OF this]
  show "set (parseBitwiseBrowsingLevel m) \<subseteq> {NsfwLevel_PG, NsfwLevel_PG13}"
    by (auto simp add: set_parseBitwiseBrowsingLevel browsingLevels_def NsfwLevel_defs)
qed

text \<open>The mask 3 is safe and decodes to PG, PG13.\<close>

theorem safe_decodes_to_sfw_witness:
  "getIsSafeBrowsingLevel 3 \<and> parseBitwiseBrowsingLevel 3 = [1, 2] \<and>
   set (parseBitwiseBrowsingLevel 3) \<subseteq> {NsfwLevel_PG, NsfwLevel_PG13}"
proof -
  have safe: "getIsSafeBrowsingLevel 3"
    by (simp add: getIsSafeBrowsingLevel_def Flags_intersects_def
        nsfwBrowsingLevelsFlag_value)
  with safe_decodes_to_sfw [of 3]
  have "set (parseBitwiseBrowsingLevel 3) \<subseteq> {NsfwLevel_PG, NsfwLevel_PG13}"
    by blast
  with safe show ?thesis
    by (simp add: parse_values)
qed

end
